theory Spec2Isabelle
  imports Complex_Main "HOL-Library.Multiset"
begin

section \<open>Values of a data frame\<close>

text \<open>
  The program is a single script, \<^verbatim>\<open>submission.py\<close>, over a table of movies.  A cell of
  the table is a missing value (pandas' \<^verbatim>\<open>NaN\<close>), a piece of text, a finite number, or
  one of the two infinities of a 64-bit float.  A finite number is held as the exact
  value its numeral denotes.  A 64-bit float holds every whole number below \<open>2 ^ 53\<close> in
  magnitude exactly, and on these the floor division and the multiplication of line 18
  are exact; other finite numbers are rounded by the program, which this model does not
  follow, so statements about the value of a number are made for such whole numbers.
\<close>

datatype cell = NaN | Str string | Num rat | PosInf | NegInf

text \<open>The exceptions the script can end in; \<open>OtherError\<close> is any other class, by name.\<close>

datatype error = AttributeError | TypeError | IndexError | ValueError | OtherError string

definition notna :: "cell \<Rightarrow> bool" where
  "notna c = (case c of NaN \<Rightarrow> False | _ \<Rightarrow> True)"

definition is_text :: "cell \<Rightarrow> bool" where
  "is_text c = (case c of Str _ \<Rightarrow> True | _ \<Rightarrow> False)"

fun sequence :: "(error + 'a) list \<Rightarrow> error + 'a list" where
  "sequence [] = Inr []"
| "sequence (x # xs) =
     (case x of
        Inl e \<Rightarrow> Inl e
      | Inr v \<Rightarrow> (case sequence xs of Inl e \<Rightarrow> Inl e | Inr vs \<Rightarrow> Inr (v # vs)))"

section \<open>Library functions the script calls\<close>

subsection \<open>Reading a number from text\<close>

text \<open>
  Two readers occur.  Python's \<^verbatim>\<open>float(s)\<close>, which \<^verbatim>\<open>astype(float)\<close> applies to every text
  of a column, and the reader of pandas, which \<^verbatim>\<open>pd.to_numeric\<close> and the column inference
  of \<^verbatim>\<open>pd.read_csv\<close> share.  Both take optional blanks around, an optional sign, and then
  either a decimal numeral (digits with an optional fraction and an optional exponent)
  or, in any mix of cases, \<^verbatim>\<open>inf\<close> or \<^verbatim>\<open>infinity\<close>.  \<^verbatim>\<open>float\<close> alone takes \<^verbatim>\<open>nan\<close> and a
  single underscore between two digits.
\<close>

definition is_space :: "char \<Rightarrow> bool" where
  "is_space c = (c \<in> set [CHR '' '', CHR 0x09, CHR 0x0A, CHR 0x0B, CHR 0x0C, CHR 0x0D])"

definition is_digit :: "char \<Rightarrow> bool" where
  "is_digit c = (c \<in> set ''0123456789'')"

definition digit_val :: "char \<Rightarrow> nat" where
  "digit_val c = of_char c - 48"

text \<open>The value of a run of digits; underscores in it are passed over.\<close>

definition digits_val :: "string \<Rightarrow> nat" where
  "digits_val ds = foldl (\<lambda>a c. 10 * a + digit_val c) 0 (filter is_digit ds)"

text \<open>A run of at least one digit; with \<open>us\<close> set, single underscores may stand
  between digits.\<close>

fun digit_run :: "bool \<Rightarrow> string \<Rightarrow> bool" where
  "digit_run us [] = False"
| "digit_run us [c] = is_digit c"
| "digit_run us (c # d # cs) =
     (if is_digit c
      then (if d = CHR ''_'' then (if us then digit_run us cs else False)
            else digit_run us (d # cs))
      else False)"

definition strip :: "string \<Rightarrow> string" where
  "strip s = rev (dropWhile is_space (rev (dropWhile is_space s)))"

definition split_sign :: "string \<Rightarrow> bool \<times> string" where
  "split_sign s =
     (case s of
        [] \<Rightarrow> (False, [])
      | c # cs \<Rightarrow>
          if c = CHR ''-'' then (True, cs)
          else if c = CHR ''+'' then (False, cs)
          else (False, s))"

definition lower :: "char \<Rightarrow> char" where
  "lower c =
     (case map_of (zip ''ABCDEFGHIJKLMNOPQRSTUVWXYZ'' ''abcdefghijklmnopqrstuvwxyz'') c of
        None \<Rightarrow> c
      | Some d \<Rightarrow> d)"

definition parse_mantissa :: "bool \<Rightarrow> string \<Rightarrow> rat option" where
  "parse_mantissa us m =
     (let ip = takeWhile (\<lambda>c. c \<noteq> CHR ''.'') m; rest = dropWhile (\<lambda>c. c \<noteq> CHR ''.'') m in
      case rest of
        [] \<Rightarrow> if digit_run us ip then Some (of_nat (digits_val ip)) else None
      | c # fp \<Rightarrow>
          if (ip = [] \<or> digit_run us ip) \<and> (fp = [] \<or> digit_run us fp) \<and> ip @ fp \<noteq> []
          then Some (of_nat (digits_val ip)
                     + of_nat (digits_val fp) / 10 ^ length (filter is_digit fp))
          else None)"

definition parse_exponent :: "bool \<Rightarrow> string \<Rightarrow> int option" where
  "parse_exponent us e =
     (case e of
        [] \<Rightarrow> Some 0
      | c # cs \<Rightarrow>
          (case split_sign cs of
             (neg, ds) \<Rightarrow>
               if digit_run us ds
               then Some (if neg then - int (digits_val ds) else int (digits_val ds))
               else None))"

definition is_exp_mark :: "char \<Rightarrow> bool" where
  "is_exp_mark c = (c = CHR ''e'' \<or> c = CHR ''E'')"

definition scale10 :: "rat \<Rightarrow> int \<Rightarrow> rat" where
  "scale10 x k = (if 0 \<le> k then x * 10 ^ nat k else x / 10 ^ nat (- k))"

definition parse_decimal :: "bool \<Rightarrow> string \<Rightarrow> rat option" where
  "parse_decimal us u =
     (case parse_mantissa us (takeWhile (\<lambda>c. \<not> is_exp_mark c) u) of
        None \<Rightarrow> None
      | Some x \<Rightarrow>
          (case parse_exponent us (dropWhile (\<lambda>c. \<not> is_exp_mark c) u) of
             None \<Rightarrow> None
           | Some k \<Rightarrow> Some (scale10 x k)))"

definition starts_special :: "string \<Rightarrow> bool" where
  "starts_special u = (case u of [] \<Rightarrow> False | c # _ \<Rightarrow> c \<in> set ''iInN'')"

text \<open>The reader, for \<^verbatim>\<open>float\<close> when \<open>python\<close> is set and for pandas otherwise.\<close>

definition parse_number :: "bool \<Rightarrow> string \<Rightarrow> cell option" where
  "parse_number python s =
     (case split_sign (strip s) of
        (neg, u) \<Rightarrow>
          if starts_special u
          then (if map lower u = ''inf'' \<or> map lower u = ''infinity''
                then Some (if neg then NegInf else PosInf)
                else if python \<and> map lower u = ''nan'' then Some NaN
                else None)
          else map_option (\<lambda>x. Num (if neg then - x else x)) (parse_decimal python u))"

definition py_float :: "string \<Rightarrow> cell option" where
  "py_float = parse_number True"

definition pd_number :: "string \<Rightarrow> cell option" where
  "pd_number = parse_number False"

subsection \<open>Regular expressions and text replacement\<close>

text \<open>
  \<^verbatim>\<open>Series.replace(pat, repl, regex=True)\<close> compiles \<^verbatim>\<open>pat\<close> with Python's \<^verbatim>\<open>re\<close> and applies
  \<^verbatim>\<open>re.sub\<close> to every text cell.  The script passes two one-character patterns.  In
  the syntax of \<^verbatim>\<open>re\<close> a comma is an ordinary character; a dollar sign is the anchor
  that matches the empty string at the end of the text (and before a final newline).
\<close>

datatype regex = Lit char | Eol

definition re_compile :: "string \<Rightarrow> regex option" where
  "re_compile p =
     (case p of
        [c] \<Rightarrow>
          if c = CHR ''$'' then Some Eol
          else if c \<in> set (CHR 0x5C # ''.^*+?{}[]|()'') then None
          else Some (Lit c)
      | _ \<Rightarrow> None)"

fun re_sub :: "regex \<Rightarrow> string \<Rightarrow> string \<Rightarrow> string" where
  "re_sub (Lit c) repl s = concat (map (\<lambda>x. if x = c then repl else [x]) s)"
| "re_sub Eol repl s =
     (if s \<noteq> [] \<and> last s = CHR 0x0A then butlast s @ repl @ [CHR 0x0A] @ repl
      else s @ repl)"

text \<open>Cells that are not text pass through; a pattern outside the two forms above
  is not used by the script and leaves the column as it is.\<close>

definition replace_regex :: "string \<Rightarrow> string \<Rightarrow> cell list \<Rightarrow> cell list" where
  "replace_regex pat repl col =
     (case re_compile pat of
        None \<Rightarrow> col
      | Some r \<Rightarrow> map (\<lambda>c. case c of Str s \<Rightarrow> Str (re_sub r repl s) | _ \<Rightarrow> c) col)"

text \<open>Python's \<^verbatim>\<open>str.replace\<close>: every occurrence, left to right, without overlap.\<close>

function replace_all :: "string \<Rightarrow> string \<Rightarrow> string \<Rightarrow> string" where
  "replace_all old new [] = (if old = [] then new else [])"
| "replace_all old new (c # cs) =
     (if old = [] then new @ c # replace_all old new cs
      else if take (length old) (c # cs) = old
      then new @ replace_all old new (drop (length old) (c # cs))
      else c # replace_all old new cs)"
  by pat_completeness auto
termination
  by (relation "measure (\<lambda>(old, new, s). length s)") auto

text \<open>
  The \<^verbatim>\<open>.str\<close> accessor exists on a column of text only; on a numeric column pandas
  raises \<^verbatim>\<open>AttributeError\<close>.  After \<^verbatim>\<open>read_csv\<close> a column with rows is numeric exactly when
  it holds no text.  A cell that is not text gives \<^verbatim>\<open>NaN\<close>.
\<close>

definition str_replace :: "string \<Rightarrow> string \<Rightarrow> cell list \<Rightarrow> error + cell list" where
  "str_replace old new col =
     (if col = [] \<or> list_ex is_text col
      then Inr (map (\<lambda>c. case c of Str s \<Rightarrow> Str (replace_all old new s) | _ \<Rightarrow> NaN) col)
      else Inl AttributeError)"

subsection \<open>Numeric conversion of a column\<close>

text \<open>\<^verbatim>\<open>float\<close> of one cell: a text is read, any other cell is a float already.\<close>

definition to_float :: "cell \<Rightarrow> cell option" where
  "to_float c = (case c of Str s \<Rightarrow> py_float s | _ \<Rightarrow> Some c)"

text \<open>\<^verbatim>\<open>astype(float, errors='ignore')\<close> converts the whole column, or, when one cell
  does not convert, returns the column it was given.\<close>

definition astype_float_ignore :: "cell list \<Rightarrow> cell list" where
  "astype_float_ignore col =
     (case those (map to_float col) of Some col' \<Rightarrow> col' | None \<Rightarrow> col)"

text \<open>\<^verbatim>\<open>pd.to_numeric(col, errors='coerce')\<close> converts cell by cell; a text that is no
  number becomes \<^verbatim>\<open>NaN\<close>.\<close>

definition to_numeric_coerce :: "cell list \<Rightarrow> cell list" where
  "to_numeric_coerce col =
     map (\<lambda>c. case c of
                Str s \<Rightarrow> (case pd_number s of None \<Rightarrow> NaN | Some v \<Rightarrow> v)
              | _ \<Rightarrow> c) col"

text \<open>Arithmetic on a column, cell by cell.  Floor division of text raises
  \<^verbatim>\<open>TypeError\<close> and floor division of an infinity is \<^verbatim>\<open>NaN\<close>; text times an integer is
  Python's repetition.\<close>

definition floordiv :: "cell \<Rightarrow> int \<Rightarrow> error + cell" where
  "floordiv c k =
     (case c of
        NaN \<Rightarrow> Inr NaN
      | Num x \<Rightarrow> Inr (Num (of_int \<lfloor>x / of_int k\<rfloor>))
      | Str s \<Rightarrow> Inl TypeError
      | PosInf \<Rightarrow> Inr NaN
      | NegInf \<Rightarrow> Inr NaN)"

definition mul :: "cell \<Rightarrow> nat \<Rightarrow> cell" where
  "mul c k =
     (case c of
        NaN \<Rightarrow> NaN
      | Num x \<Rightarrow> Num (x * of_nat k)
      | Str s \<Rightarrow> Str (concat (replicate k s))
      | PosInf \<Rightarrow> (if k = 0 then NaN else PosInf)
      | NegInf \<Rightarrow> (if k = 0 then NaN else NegInf))"

section \<open>Loading the dataset\<close>

text \<open>
  A line of \<^verbatim>\<open>moviesdata.csv\<close>, restricted to the nine columns the script reads, each
  field as the text in the file.
\<close>

record csv_row =
  Series_Title_text :: string
  Released_Year_text :: string
  Runtime_text :: string
  Genre_text :: string
  IMDB_Rating_text :: string
  Meta_score_text :: string
  Director_text :: string
  No_of_Votes_text :: string
  Gross_text :: string

record movie =
  Series_Title :: cell
  Released_Year :: cell
  Runtime :: cell
  Genre :: cell
  IMDB_Rating :: cell
  Meta_score :: cell
  Director :: cell
  No_of_Votes :: cell
  Gross :: cell

record movie_d = movie +
  Decade :: cell

text \<open>
  \<^verbatim>\<open>pd.read_csv\<close> with its defaults: a field spelled as one of the missing-value
  markers is \<^verbatim>\<open>NaN\<close>; a column whose other fields all read as numbers is numeric; any
  other column keeps its fields as text.
\<close>

definition na_values :: "string list" where
  "na_values =
     ['''', ''#N/A'', ''#N/A N/A'', ''#NA'', ''-1.#IND'', ''-1.#QNAN'', ''-NaN'', ''-nan'',
      ''1.#IND'', ''1.#QNAN'', ''<NA>'', ''N/A'', ''NA'', ''NULL'', ''NaN'', ''None'',
      ''n/a'', ''nan'', ''null'']"

definition is_na_text :: "string \<Rightarrow> bool" where
  "is_na_text s = (s \<in> set na_values)"

definition reads_as_number :: "string \<Rightarrow> bool" where
  "reads_as_number s = (case pd_number s of None \<Rightarrow> False | Some _ \<Rightarrow> True)"

definition numeric_column :: "string list \<Rightarrow> bool" where
  "numeric_column xs = (xs \<noteq> [] \<and> list_all (\<lambda>s. is_na_text s \<or> reads_as_number s) xs)"

definition read_cell :: "bool \<Rightarrow> string \<Rightarrow> cell" where
  "read_cell numeric s =
     (if is_na_text s then NaN
      else if numeric then (case pd_number s of None \<Rightarrow> Str s | Some v \<Rightarrow> v)
      else Str s)"

definition read_column :: "string list \<Rightarrow> string \<Rightarrow> cell" where
  "read_column xs = read_cell (numeric_column xs)"

definition read_csv :: "csv_row list \<Rightarrow> movie list" where
  "read_csv rows =
     map (\<lambda>r.
       \<lparr>Series_Title = read_column (map Series_Title_text rows) (Series_Title_text r),
        Released_Year = read_column (map Released_Year_text rows) (Released_Year_text r),
        Runtime = read_column (map Runtime_text rows) (Runtime_text r),
        Genre = read_column (map Genre_text rows) (Genre_text r),
        IMDB_Rating = read_column (map IMDB_Rating_text rows) (IMDB_Rating_text r),
        Meta_score = read_column (map Meta_score_text rows) (Meta_score_text r),
        Director = read_column (map Director_text rows) (Director_text r),
        No_of_Votes = read_column (map No_of_Votes_text rows) (No_of_Votes_text r),
        Gross = read_column (map Gross_text rows) (Gross_text r)\<rparr>) rows"

section \<open>Preprocessing (lines 11 to 18)\<close>

text \<open>\<^verbatim>\<open>data[name] = col\<close>: the column is written back row by row.\<close>

definition assign :: "('v \<Rightarrow> 'r \<Rightarrow> 'r) \<Rightarrow> 'v list \<Rightarrow> 'r list \<Rightarrow> 'r list" where
  "assign upd col rows = map (\<lambda>(v, r). upd v r) (zip col rows)"

definition clean_Gross :: "movie list \<Rightarrow> movie list" where
  "clean_Gross data =
     assign (\<lambda>v r. r\<lparr>Gross := v\<rparr>)
       (astype_float_ignore
          (replace_regex ''$'' '''' (replace_regex '','' '''' (map Gross data))))
       data"

definition clean_No_of_Votes :: "movie list \<Rightarrow> movie list" where
  "clean_No_of_Votes data =
     assign (\<lambda>v r. r\<lparr>No_of_Votes := v\<rparr>) (to_numeric_coerce (map No_of_Votes data)) data"

definition clean_Runtime :: "movie list \<Rightarrow> error + movie list" where
  "clean_Runtime data =
     (case str_replace '' min'' '''' (map Runtime data) of
        Inl e \<Rightarrow> Inl e
      | Inr col \<Rightarrow> Inr (assign (\<lambda>v r. r\<lparr>Runtime := v\<rparr>) (astype_float_ignore col) data))"

definition clean_Released_Year :: "movie list \<Rightarrow> movie list" where
  "clean_Released_Year data =
     assign (\<lambda>v r. r\<lparr>Released_Year := v\<rparr>) (to_numeric_coerce (map Released_Year data)) data"

text \<open>Lines 11 to 14: the four columns, in the script's order.\<close>

definition parse_columns :: "movie list \<Rightarrow> error + movie list" where
  "parse_columns data =
     (case clean_Runtime (clean_No_of_Votes (clean_Gross data)) of
        Inl e \<Rightarrow> Inl e
      | Inr data' \<Rightarrow> Inr (clean_Released_Year data'))"

text \<open>Line 15: \<^verbatim>\<open>data.dropna(subset=['Released_Year', 'Gross'])\<close>.\<close>

definition dropna_subset :: "movie list \<Rightarrow> movie list" where
  "dropna_subset data = filter (\<lambda>r. notna (Released_Year r) \<and> notna (Gross r)) data"

text \<open>Line 18: \<^verbatim>\<open>data['Decade'] = (data['Released_Year'] // 10) * 10\<close>.\<close>

definition decade_of :: "cell \<Rightarrow> error + cell" where
  "decade_of y = (case floordiv y 10 of Inl e \<Rightarrow> Inl e | Inr q \<Rightarrow> Inr (mul q 10))"

definition add_Decade :: "movie list \<Rightarrow> error + movie_d list" where
  "add_Decade data =
     (case sequence (map (\<lambda>r. decade_of (Released_Year r)) data) of
        Inl e \<Rightarrow> Inl e
      | Inr col \<Rightarrow> Inr (map (\<lambda>(d, r). movie.extend r (movie_d.fields d)) (zip col data)))"

definition clean :: "movie list \<Rightarrow> error + movie_d list" where
  "clean data =
     (case parse_columns data of
        Inl e \<Rightarrow> Inl e
      | Inr parsed \<Rightarrow> add_Decade (dropna_subset parsed))"

definition load :: "csv_row list \<Rightarrow> error + movie_d list" where
  "load rows = clean (read_csv rows)"

section \<open>What the libraries leave open\<close>

text \<open>
  Three behaviours of the libraries are taken as given rather than fixed here.
  \<^item> pandas orders values of equal count as its sorting routine happens to leave them;
    \<open>tie_rank\<close> ranks the values of a column, and among equal counts the lower rank
    comes first.
  \<^item> \<^verbatim>\<open>px.treemap\<close>, \<^verbatim>\<open>px.scatter\<close> and \<^verbatim>\<open>px.parallel_coordinates\<close>, with the styling calls
    that follow each (lines 43 to 58, 61 to 82 and 117 to 131), return a figure or raise,
    depending on the table.
  \<^item> \<open>repr_float\<close> is the text Python prints for a float.
\<close>

record 'fig library =
  tie_rank :: "cell list \<Rightarrow> cell \<Rightarrow> nat"
  px_treemap :: "movie_d list \<Rightarrow> error + 'fig"
  px_scatter :: "movie_d list \<Rightarrow> error + 'fig"
  px_parallel_coordinates :: "movie_d list \<Rightarrow> error + 'fig"
  repr_float :: "rat \<Rightarrow> string"

section \<open>Genre filter (lines 38 to 40)\<close>

text \<open>
  \<^verbatim>\<open>value_counts()\<close> leaves \<^verbatim>\<open>NaN\<close> out, counts each remaining value and orders the
  values by falling count, values of equal count by the rank given.
\<close>

fun unique :: "'a list \<Rightarrow> 'a list" where
  "unique [] = []"
| "unique (x # xs) = x # unique (filter (\<lambda>y. y \<noteq> x) xs)"

definition value_counts :: "(cell \<Rightarrow> nat) \<Rightarrow> cell list \<Rightarrow> (cell \<times> nat) list" where
  "value_counts rank col =
     (let vals = filter notna col in
      sort_key (\<lambda>(g, n). - int n)
        (sort_key (\<lambda>(g, n). rank g) (map (\<lambda>g. (g, count_list vals g)) (unique vals))))"

definition genre_counts :: "'fig library \<Rightarrow> movie_d list \<Rightarrow> (cell \<times> nat) list" where
  "genre_counts L data = value_counts (tie_rank L (map Genre data)) (map Genre data)"

definition selected_genres :: "'fig library \<Rightarrow> movie_d list \<Rightarrow> cell list" where
  "selected_genres L data = map fst (filter (\<lambda>(g, n). 10 < n) (genre_counts L data))"

definition isin :: "cell \<Rightarrow> cell list \<Rightarrow> bool" where
  "isin c vs = (c \<in> set vs)"

definition data_filtered :: "'fig library \<Rightarrow> movie_d list \<Rightarrow> movie_d list" where
  "data_filtered L data = filter (\<lambda>r. isin (Genre r) (selected_genres L data)) data"

text \<open>The number of rows of a table with a given genre.\<close>

definition row_count :: "movie_d list \<Rightarrow> cell \<Rightarrow> nat" where
  "row_count data g = length (filter (\<lambda>r. Genre r = g) data)"

section \<open>The decade bar chart (lines 24 to 35 and 85 to 113)\<close>

definition genre_colors :: "(string \<times> string) list" where
  "genre_colors =
     [(''Action'', ''#FF5733''),
      (''Adventure'', ''#33FF57''),
      (''Drama'', ''#337BFF''),
      (''Comedy'', ''#F39C12''),
      (''Horror'', ''#8E44AD''),
      (''Thriller'', ''#C0392B''),
      (''Animation'', ''#1ABC9C''),
      (''Sci-Fi'', ''#9B59B6''),
      (''Crime'', ''#34495E''),
      (''Romance'', ''#E74C3C'')]"

text \<open>The module-level names the chart builder reads.\<close>

record globals =
  g_data_filtered :: "movie_d list"
  g_genre_colors :: "(string \<times> string) list"

text \<open>
  The value the callback receives is whatever JSON value the request carries: the
  selector sends a text, or null when it is cleared, and any other client may send a
  number, a truth value, a list or an object.
\<close>

datatype selector_value =
    JNull
  | JBool bool
  | JInt int
  | JFloat rat
  | JText string
  | JList "selector_value list"
  | JObject "(string \<times> selector_value) list"

definition is_list :: "selector_value \<Rightarrow> bool" where
  "is_list v = (case v of JList _ \<Rightarrow> True | _ \<Rightarrow> False)"

text \<open>Python's \<^verbatim>\<open>==\<close> between a cell and a value that is no list: \<^verbatim>\<open>True\<close> and \<^verbatim>\<open>False\<close>
  equal the numbers 1 and 0; \<^verbatim>\<open>None\<close> and an object equal no cell.\<close>

definition eq_scalar :: "cell \<Rightarrow> selector_value \<Rightarrow> bool" where
  "eq_scalar c v =
     (case v of
        JText g \<Rightarrow> c = Str g
      | JInt n \<Rightarrow> c = Num (of_int n)
      | JFloat x \<Rightarrow> c = Num x
      | JBool b \<Rightarrow> c = Num (if b then 1 else 0)
      | _ \<Rightarrow> False)"

text \<open>
  \<^verbatim>\<open>column == value\<close>, line 86.  Against a list pandas compares cell by cell and raises
  \<^verbatim>\<open>ValueError\<close> unless the list is flat and as long as the column.  What the comparison
  gives for a list that passes is of no consequence: line 88 raises for every list.
\<close>

definition series_eq :: "cell list \<Rightarrow> selector_value \<Rightarrow> error + bool list" where
  "series_eq col v =
     (case v of
        JList vs \<Rightarrow>
          if length vs = length col \<and> list_all (\<lambda>x. \<not> is_list x) vs
          then Inr (map (\<lambda>(c, x). eq_scalar c x) (zip col vs))
          else Inl ValueError
      | _ \<Rightarrow> Inr (map (\<lambda>c. eq_scalar c v) col))"

text \<open>\<^verbatim>\<open>frame[mask]\<close>: the rows where the mask holds.\<close>

definition select_rows :: "bool list \<Rightarrow> 'r list \<Rightarrow> 'r list" where
  "select_rows keep rows = map snd (filter fst (zip keep rows))"

text \<open>\<^verbatim>\<open>d.get(key, default)\<close> on a dictionary with text keys, line 88: a list or an
  object cannot be hashed and raises \<^verbatim>\<open>TypeError\<close>.\<close>

definition dict_get ::
  "(string \<times> string) list \<Rightarrow> selector_value \<Rightarrow> string \<Rightarrow> error + string" where
  "dict_get d k dflt =
     (case k of
        JText key \<Rightarrow> Inr (case map_of d key of None \<Rightarrow> dflt | Some v \<Rightarrow> v)
      | JList _ \<Rightarrow> Inl TypeError
      | JObject _ \<Rightarrow> Inl TypeError
      | _ \<Rightarrow> Inr dflt)"

function show_nat :: "nat \<Rightarrow> string" where
  "show_nat n =
     (if n < 10 then [''0123456789'' ! n]
      else show_nat (n div 10) @ [''0123456789'' ! (n mod 10)])"
  by pat_completeness auto
termination
  by (relation "measure (\<lambda>n. n)") auto

text \<open>\<^verbatim>\<open>str(value)\<close>, as the f-string of line 96 forms it.  For a list or an object
  line 96 is not reached.\<close>

definition py_str :: "'fig library \<Rightarrow> selector_value \<Rightarrow> string" where
  "py_str L v =
     (case v of
        JNull \<Rightarrow> ''None''
      | JBool b \<Rightarrow> (if b then ''True'' else ''False'')
      | JInt n \<Rightarrow> (if n < 0 then CHR ''-'' # show_nat (nat (- n)) else show_nat (nat n))
      | JFloat x \<Rightarrow> repr_float L x
      | JText g \<Rightarrow> g
      | _ \<Rightarrow> [])"

record fig_layout =
  title_font_size :: nat
  title_x :: rat
  paper_bgcolor :: string
  plot_bgcolor :: string
  font_color :: string
  margin_t :: nat
  margin_b :: nat
  margin_l :: nat
  margin_r :: nat
  height :: nat

text \<open>
  The chart description: one bar trace over the rows given, its marker colour once
  \<^verbatim>\<open>update_traces\<close> has set it, and the layout once \<^verbatim>\<open>update_layout\<close> has set it.
\<close>

record bar_chart =
  bar_x :: "cell list"
  bar_y :: "cell list"
  hover_data :: "cell list list"
  title :: string
  labels :: "(string \<times> string) list"
  marker_color :: "string option"
  layout :: "fig_layout option"

definition px_bar ::
  "movie_d list \<Rightarrow> (movie_d \<Rightarrow> cell) \<Rightarrow> (movie_d \<Rightarrow> cell) \<Rightarrow> (movie_d \<Rightarrow> cell) list \<Rightarrow>
     string \<Rightarrow> (string \<times> string) list \<Rightarrow> bar_chart" where
  "px_bar df xcol ycol hover ttl lbls =
     \<lparr>bar_x = map xcol df, bar_y = map ycol df, hover_data = map (\<lambda>h. map h df) hover,
      title = ttl, labels = lbls, marker_color = None, layout = None\<rparr>"

definition update_traces :: "string \<Rightarrow> bar_chart \<Rightarrow> bar_chart" where
  "update_traces c fig = fig\<lparr>marker_color := Some c\<rparr>"

definition update_layout :: "fig_layout \<Rightarrow> bar_chart \<Rightarrow> bar_chart" where
  "update_layout l fig = fig\<lparr>layout := Some l\<rparr>"

text \<open>\<^verbatim>\<open>create_facet_chart\<close>, with the globals it reads as an argument.\<close>

definition create_facet_chart ::
  "'fig library \<Rightarrow> selector_value \<Rightarrow> globals \<Rightarrow> error + bar_chart" where
  "create_facet_chart L selected_genre s =
     (case series_eq (map Genre (g_data_filtered s)) selected_genre of
        Inl e \<Rightarrow> Inl e
      | Inr keep \<Rightarrow>
          (case dict_get (g_genre_colors s) selected_genre ''#337BFF'' of
             Inl e \<Rightarrow> Inl e
           | Inr selected_color \<Rightarrow>
               Inr (update_layout
                      \<lparr>title_font_size = 18, title_x = 4 / 10,
                       paper_bgcolor = ''rgba(0,0,0,0)'', plot_bgcolor = ''rgba(0,0,0,0)'',
                       font_color = ''white'',
                       margin_t = 40, margin_b = 30, margin_l = 30, margin_r = 30,
                       height = 400\<rparr>
                      (update_traces selected_color
                         (px_bar (select_rows keep (g_data_filtered s))
                            Decade IMDB_Rating [Series_Title]
                            (''IMDB Rating by Decade for '' @ py_str L selected_genre)
                            [(''Decade'', ''Decade''),
                             (''IMDB_Rating'', ''Average IMDB Rating'')])))))"

section \<open>The dashboard (lines 134 to 178)\<close>

text \<open>The style dictionaries of the page are not modelled.\<close>

datatype 'fig component =
    H1 string
  | Label string
  | Dropdown string "(cell \<times> cell) list" cell
  | Graph "string option" "'fig option"
  | Div "'fig component list"

record callback =
  outputs :: "(string \<times> string) list"
  inputs :: "(string \<times> string) list"
  handler :: "selector_value \<Rightarrow> globals \<Rightarrow> error + bar_chart"

record 'fig dash_app =
  app_layout :: "'fig component option"
  callbacks :: "callback list"

definition Dash :: "'fig dash_app" where
  "Dash = \<lparr>app_layout = None, callbacks = []\<rparr>"

text \<open>\<^verbatim>\<open>xs[0]\<close> raises \<^verbatim>\<open>IndexError\<close> on an empty list.\<close>

definition first :: "'a list \<Rightarrow> error + 'a" where
  "first xs = (case xs of [] \<Rightarrow> Inl IndexError | x # _ \<Rightarrow> Inr x)"

definition make_layout :: "cell list \<Rightarrow> 'fig \<Rightarrow> 'fig \<Rightarrow> 'fig \<Rightarrow> error + 'fig component" where
  "make_layout genres treemap scatterplot parallel_coordinates =
     (case first genres of
        Inl e \<Rightarrow> Inl e
      | Inr v \<Rightarrow>
          Inr (Div
            [H1 ([CHR 0xF0, CHR 0x9F, CHR 0x8E, CHR 0xA5] @ '' IMDB Movie Analysis ''
                 @ [CHR 0xF0, CHR 0x9F, CHR 0x8F, CHR 0x86]),
             Div [Graph None (Some treemap), Graph None (Some scatterplot)],
             Div [Label '' '', Dropdown ''genre-dropdown'' (map (\<lambda>genre. (genre, genre)) genres) v],
             Div [Graph (Some ''facet-chart'') None, Graph None (Some parallel_coordinates)]]))"

definition update_facet_chart ::
  "'fig library \<Rightarrow> selector_value \<Rightarrow> globals \<Rightarrow> error + bar_chart" where
  "update_facet_chart L selected_genre = create_facet_chart L selected_genre"

text \<open>\<^verbatim>\<open>@app.callback(Output(...), Input(...))\<close> adds one binding to the application.\<close>

definition app_callback ::
  "(string \<times> string) \<Rightarrow> (string \<times> string) \<Rightarrow>
     (selector_value \<Rightarrow> globals \<Rightarrow> error + bar_chart) \<Rightarrow> 'fig dash_app \<Rightarrow> 'fig dash_app" where
  "app_callback out inp f app =
     app\<lparr>callbacks := callbacks app @ [\<lparr>outputs = [out], inputs = [inp], handler = f\<rparr>]\<rparr>"

text \<open>The globals as the script leaves them: the filtered table of line 40 and the
  colour table of line 24.\<close>

definition make_globals :: "'fig library \<Rightarrow> movie_d list \<Rightarrow> globals" where
  "make_globals L data =
     \<lparr>g_data_filtered = data_filtered L data, g_genre_colors = genre_colors\<rparr>"

text \<open>
  The script up to the point where the server would start, in the order of its lines:
  loading and preprocessing, the genre filter, the three static charts, the page, the
  callback.  The result is the globals and the application, or the error that stops it.
\<close>

definition startup :: "'fig library \<Rightarrow> csv_row list \<Rightarrow> error + globals \<times> 'fig dash_app" where
  "startup L rows =
     (case load rows of
        Inl e \<Rightarrow> Inl e
      | Inr data \<Rightarrow>
          (case px_treemap L data of
             Inl e \<Rightarrow> Inl e
           | Inr treemap \<Rightarrow>
               (case px_scatter L data of
                  Inl e \<Rightarrow> Inl e
                | Inr scatterplot \<Rightarrow>
                    (case px_parallel_coordinates L data of
                       Inl e \<Rightarrow> Inl e
                     | Inr parallel_coordinates \<Rightarrow>
                         (case make_layout (selected_genres L data)
                                 treemap scatterplot parallel_coordinates of
                            Inl e \<Rightarrow> Inl e
                          | Inr page \<Rightarrow>
                              Inr (make_globals L data,
                                   app_callback (''facet-chart'', ''figure'')
                                     (''genre-dropdown'', ''value'')
                                     (update_facet_chart L)
                                     (Dash\<lparr>app_layout := Some page\<rparr>)))))))"

text \<open>The selectors of a page, in document order.\<close>

fun dropdowns :: "'fig component \<Rightarrow> 'fig component list" where
  "dropdowns (Dropdown i opts v) = [Dropdown i opts v]"
| "dropdowns (Div cs) = concat (map dropdowns cs)"
| "dropdowns (H1 t) = []"
| "dropdowns (Label t) = []"
| "dropdowns (Graph i f) = []"

section \<open>Sample input\<close>

text \<open>A line of the file with the year, runtime, genre and gross given and the other
  fields fixed; the examples below are built from it.\<close>

definition sample_row :: "string \<Rightarrow> string \<Rightarrow> string \<Rightarrow> string \<Rightarrow> csv_row" where
  "sample_row y rt g gr =
     \<lparr>Series_Title_text = ''T'', Released_Year_text = y, Runtime_text = rt, Genre_text = g,
      IMDB_Rating_text = ''8.1'', Meta_score_text = ''80'', Director_text = ''D'',
      No_of_Votes_text = ''100'', Gross_text = gr\<rparr>"

definition sample_table :: "csv_row list" where
  "sample_table =
     [sample_row ''1999'' ''142 min'' ''Drama'' ''1,234,567'',
      sample_row ''PG'' ''100 min'' ''Drama'' ''5'',
      sample_row ''2001'' ''abc'' ''Drama'' ''N/A'']"

text \<open>The one row of \<open>sample_table\<close> that the preprocessing keeps.\<close>

definition sample_cleaned :: movie_d where
  "sample_cleaned =
     \<lparr>Series_Title = Str ''T'', Released_Year = Num 1999, Runtime = Str ''142'',
      Genre = Str ''Drama'', IMDB_Rating = Num (81 / 10), Meta_score = Num 80,
      Director = Str ''D'', No_of_Votes = Num 100, Gross = Num 1234567, Decade = Num 1990\<rparr>"

text \<open>A table of 3 short films, 15 action films and 50 dramas.\<close>

definition genre_row :: "string \<Rightarrow> movie_d" where
  "genre_row g = sample_cleaned\<lparr>Genre := Str g\<rparr>"

definition sample_genres :: "movie_d list" where
  "sample_genres =
     replicate 3 (genre_row ''Shortfilm'') @ replicate 15 (genre_row ''Action'')
       @ replicate 50 (genre_row ''Drama'')"

text \<open>A library whose three static charts always come out, named by their kind.\<close>

definition sample_library :: "string library" where
  "sample_library =
     \<lparr>tie_rank = (\<lambda>col g. 0),
      px_treemap = (\<lambda>data. Inr ''treemap''),
      px_scatter = (\<lambda>data. Inr ''scatter''),
      px_parallel_coordinates = (\<lambda>data. Inr ''parallel_coordinates''),
      repr_float = (\<lambda>x. [])\<rparr>"

text \<open>Eleven lines of one genre, and the row each of them becomes.\<close>

definition sample_dramas :: "csv_row list" where
  "sample_dramas = replicate 11 (sample_row ''1999'' ''142 min'' ''Drama'' ''5'')"

definition drama_cleaned :: movie_d where
  "drama_cleaned =
     \<lparr>Series_Title = Str ''T'', Released_Year = Num 1999, Runtime = Num 142,
      Genre = Str ''Drama'', IMDB_Rating = Num (81 / 10), Meta_score = Num 80,
      Director = Str ''D'', No_of_Votes = Num 100, Gross = Num 5, Decade = Num 1990\<rparr>"

text \<open>A table as \<open>read_csv\<close> returns it, of one row, and that row after lines 11 to 14;
  two lines of which the second has a runtime that is no number.\<close>

definition sample_read :: movie where
  "sample_read =
     \<lparr>Series_Title = Str ''T'', Released_Year = Num 1999, Runtime = Str ''142 min'',
      Genre = Str ''Drama'', IMDB_Rating = Num (81 / 10), Meta_score = Num 80,
      Director = Str ''D'', No_of_Votes = Num 100, Gross = Num 5\<rparr>"

definition sample_parsed :: movie where
  "sample_parsed = sample_read\<lparr>Runtime := Num 142\<rparr>"

definition sample_runtimes :: "csv_row list" where
  "sample_runtimes =
     [sample_row ''1999'' ''142 min'' ''Drama'' ''5'',
      sample_row ''2001'' ''abc'' ''Drama'' ''7'']"

text \<open>Lines whose gross carries a dollar sign, thousands separators only, the
  missing-value marker, or a text that is no number; a line whose year is infinite.\<close>

definition dollar_row :: csv_row where
  "dollar_row = sample_row ''1999'' ''142 min'' ''Drama'' ''$1,234,567''"

definition comma_row :: csv_row where
  "comma_row = sample_row ''1999'' ''142 min'' ''Drama'' ''1,234,567''"

definition na_row :: csv_row where
  "na_row = sample_row ''2001'' ''100 min'' ''Drama'' ''N/A''"

definition text_row :: csv_row where
  "text_row = sample_row ''2001'' ''100 min'' ''Drama'' ''abc''"

definition inf_row :: csv_row where
  "inf_row = sample_row ''inf'' ''142 min'' ''Drama'' ''5''"

section \<open>Properties of the preprocessing\<close>

subsection \<open>Columns keep their length and their neighbours\<close>

lemma those_length: "those xs = Some ys \<Longrightarrow> length ys = length xs"
  by (induction xs arbitrary: ys) (auto split: option.splits)

lemma length_astype_float_ignore: "length (astype_float_ignore col) = length col"
  by (auto simp: astype_float_ignore_def split: option.splits dest: those_length)

lemma length_to_numeric_coerce: "length (to_numeric_coerce col) = length col"
  by (simp add: to_numeric_coerce_def)

lemma length_replace_regex: "length (replace_regex p r col) = length col"
  by (simp add: replace_regex_def split: option.splits)

lemma length_assign: "length col = length rows \<Longrightarrow> length (assign upd col rows) = length rows"
  by (simp add: assign_def)

lemma map_assign_same:
  assumes "length col = length rows" and "\<And>v r. f (upd v r) = v"
  shows "map f (assign upd col rows) = col"
proof -
  have "map f (assign upd col rows) = map fst (zip col rows)"
    by (simp add: assign_def assms(2) case_prod_unfold)
  then show ?thesis using assms(1) by simp
qed

lemma map_assign_other:
  assumes "length col = length rows" and "\<And>v r. f (upd v r) = f r"
  shows "map f (assign upd col rows) = map f rows"
proof -
  have "map f (assign upd col rows) = map f (map snd (zip col rows))"
    by (simp add: assign_def assms(2) case_prod_unfold)
  then show ?thesis using assms(1) by simp
qed

lemma length_clean_Gross: "length (clean_Gross data) = length data"
  by (simp add: clean_Gross_def length_assign length_astype_float_ignore length_replace_regex)

lemma length_clean_No_of_Votes: "length (clean_No_of_Votes data) = length data"
  by (simp add: clean_No_of_Votes_def length_assign length_to_numeric_coerce)

lemma length_clean_Released_Year: "length (clean_Released_Year data) = length data"
  by (simp add: clean_Released_Year_def length_assign length_to_numeric_coerce)

lemma str_replace_Inr:
  "str_replace old new col = Inr col' \<Longrightarrow>
     col' = map (\<lambda>c. case c of Str s \<Rightarrow> Str (replace_all old new s) | _ \<Rightarrow> NaN) col"
  by (auto simp: str_replace_def split: if_splits)

lemma clean_Runtime_Inr:
  assumes "clean_Runtime data = Inr data'"
  shows "length data' = length data"
    and "map Released_Year data' = map Released_Year data"
    and "map Gross data' = map Gross data"
    and "map Genre data' = map Genre data"
proof -
  obtain col where c: "str_replace '' min'' '''' (map Runtime data) = Inr col"
    and d: "data' = assign (\<lambda>v r. r\<lparr>Runtime := v\<rparr>) (astype_float_ignore col) data"
    using assms by (auto simp: clean_Runtime_def split: sum.splits)
  have len: "length (astype_float_ignore col) = length data"
    using str_replace_Inr[OF c] by (simp add: length_astype_float_ignore)
  show "length data' = length data" using len by (simp add: d length_assign)
  show "map Released_Year data' = map Released_Year data"
    unfolding d by (rule map_assign_other[OF len]) simp
  show "map Gross data' = map Gross data"
    unfolding d by (rule map_assign_other[OF len]) simp
  show "map Genre data' = map Genre data"
    unfolding d by (rule map_assign_other[OF len]) simp
qed

lemma Released_Year_clean_Released_Year:
  "map Released_Year (clean_Released_Year data) = to_numeric_coerce (map Released_Year data)"
  unfolding clean_Released_Year_def
  by (rule map_assign_same) (simp_all add: length_to_numeric_coerce)

lemma Gross_clean_Released_Year: "map Gross (clean_Released_Year data) = map Gross data"
  unfolding clean_Released_Year_def
  by (rule map_assign_other) (simp_all add: length_to_numeric_coerce)

lemma parse_number_not_text: "parse_number python s \<noteq> Some (Str t)"
  by (auto simp: parse_number_def split: prod.splits if_splits)

lemma to_numeric_coerce_not_text: "c \<in> set (to_numeric_coerce col) \<Longrightarrow> \<not> is_text c"
  by (auto simp: to_numeric_coerce_def pd_number_def is_text_def parse_number_not_text
      split: cell.splits option.splits)

lemma parse_columns_Inr:
  assumes "parse_columns data = Inr parsed"
  shows "length parsed = length data"
    and "\<forall>r\<in>set parsed. \<not> is_text (Released_Year r)"
proof -
  obtain d where d: "clean_Runtime (clean_No_of_Votes (clean_Gross data)) = Inr d"
    and p: "parsed = clean_Released_Year d"
    using assms by (auto simp: parse_columns_def split: sum.splits)
  show "length parsed = length data"
    using clean_Runtime_Inr(1)[OF d]
    by (simp add: p length_clean_Released_Year length_clean_No_of_Votes length_clean_Gross)
  have "set (map Released_Year parsed) = set (to_numeric_coerce (map Released_Year d))"
    by (simp only: p Released_Year_clean_Released_Year)
  then show "\<forall>r\<in>set parsed. \<not> is_text (Released_Year r)"
    using to_numeric_coerce_not_text by (metis image_eqI list.set_map)
qed

lemma sequence_Inr: "sequence xs = Inr ys \<Longrightarrow> xs = map Inr ys"
  by (induction xs arbitrary: ys) (auto split: sum.splits)

lemma sequence_map_Inr: "sequence (map Inr ys) = Inr ys"
  by (induction ys) auto

lemma decade_of_total: "\<not> is_text y \<Longrightarrow> \<exists>d. decade_of y = Inr d"
  by (cases y) (auto simp: decade_of_def floordiv_def is_text_def)

lemma add_Decade_total:
  assumes "\<forall>r\<in>set data. \<not> is_text (Released_Year r)"
  shows "\<exists>df. add_Decade data = Inr df"
proof -
  have "\<exists>col. map (\<lambda>r. decade_of (Released_Year r)) data = map Inr col"
    using assms
  proof (induction data)
    case Nil
    then show ?case by simp
  next
    case (Cons r rs)
    then obtain col where "map (\<lambda>r. decade_of (Released_Year r)) rs = map Inr col" by auto
    moreover obtain d where "decade_of (Released_Year r) = Inr d"
      using Cons.prems decade_of_total by force
    ultimately have "map (\<lambda>r. decade_of (Released_Year r)) (r # rs) = map Inr (d # col)" by simp
    then show ?case by blast
  qed
  then show ?thesis by (auto simp: add_Decade_def sequence_map_Inr)
qed

lemma add_Decade_Inr:
  assumes "add_Decade data = Inr df"
  shows "map movie.truncate df = data"
    and "\<forall>r\<in>set df. decade_of (Released_Year r) = Inr (Decade r)"
proof -
  obtain col where s: "sequence (map (\<lambda>r. decade_of (Released_Year r)) data) = Inr col"
    and df: "df = map (\<lambda>(d, r). movie.extend r (movie_d.fields d)) (zip col data)"
    using assms by (auto simp: add_Decade_def split: sum.splits)
  have m: "map (\<lambda>r. decade_of (Released_Year r)) data = map Inr col"
    using sequence_Inr[OF s] .
  then have len: "length col = length data" by (metis length_map)
  have "map movie.truncate df = map snd (zip col data)"
    by (simp add: df case_prod_unfold movie.defs movie_d.defs)
  then show "map movie.truncate df = data" using len by simp
  show "\<forall>r\<in>set df. decade_of (Released_Year r) = Inr (Decade r)"
  proof
    fix r assume "r \<in> set df"
    then obtain d r0 where z: "(d, r0) \<in> set (zip col data)"
      and r: "r = movie.extend r0 (movie_d.fields d)"
      by (auto simp: df)
    from z obtain i where i: "i < length data" "col ! i = d" "data ! i = r0"
      by (auto simp: in_set_zip)
    have "map (\<lambda>r. decade_of (Released_Year r)) data ! i = map Inr col ! i" using m by simp
    then have "decade_of (Released_Year r0) = Inr d" using i len by simp
    then show "decade_of (Released_Year r) = Inr (Decade r)"
      by (simp add: r movie.defs movie_d.defs)
  qed
qed

lemma truncate_fields:
  "Released_Year (movie.truncate r) = Released_Year r" "Gross (movie.truncate r) = Gross r"
  "Genre (movie.truncate r) = Genre r"
  by (simp_all add: movie.defs)

lemma Gross_clean_Gross:
  "map Gross (clean_Gross data)
     = astype_float_ignore
         (replace_regex ''$'' [] (replace_regex '','' [] (map Gross data)))"
  unfolding clean_Gross_def
  by (rule map_assign_same) (simp_all add: length_astype_float_ignore length_replace_regex)

lemma Released_Year_clean_Gross:
  "map Released_Year (clean_Gross data) = map Released_Year data"
  unfolding clean_Gross_def
  by (rule map_assign_other) (simp_all add: length_astype_float_ignore length_replace_regex)

lemma Gross_clean_No_of_Votes: "map Gross (clean_No_of_Votes data) = map Gross data"
  unfolding clean_No_of_Votes_def
  by (rule map_assign_other) (simp_all add: length_to_numeric_coerce)

lemma Released_Year_clean_No_of_Votes:
  "map Released_Year (clean_No_of_Votes data) = map Released_Year data"
  unfolding clean_No_of_Votes_def
  by (rule map_assign_other) (simp_all add: length_to_numeric_coerce)

lemma parse_columns_year_gross:
  assumes "parse_columns data = Inr parsed"
  shows "map Released_Year parsed = to_numeric_coerce (map Released_Year data)"
    and "map Gross parsed
           = astype_float_ignore
               (replace_regex ''$'' [] (replace_regex '','' [] (map Gross data)))"
proof -
  obtain d where d: "clean_Runtime (clean_No_of_Votes (clean_Gross data)) = Inr d"
    and p: "parsed = clean_Released_Year d"
    using assms by (auto simp: parse_columns_def split: sum.splits)
  show "map Released_Year parsed = to_numeric_coerce (map Released_Year data)"
    by (simp only: p Released_Year_clean_Released_Year clean_Runtime_Inr(2)[OF d]
        Released_Year_clean_No_of_Votes Released_Year_clean_Gross)
  show "map Gross parsed
           = astype_float_ignore
               (replace_regex ''$'' [] (replace_regex '','' [] (map Gross data)))"
    by (simp only: p Gross_clean_Released_Year clean_Runtime_Inr(3)[OF d]
        Gross_clean_No_of_Votes Gross_clean_Gross)
qed

subsection \<open>Evaluating the script on sample input\<close>

lemmas parse_defs = py_float_def pd_number_def parse_number_def strip_def is_space_def
  split_sign_def parse_mantissa_def is_digit_def parse_exponent_def is_exp_mark_def scale10_def
  digits_val_def digit_val_def parse_decimal_def starts_special_def lower_def

lemmas read_defs = read_csv_def read_column_def read_cell_def numeric_column_def is_na_text_def
  na_values_def reads_as_number_def sample_row_def

lemmas clean_defs = clean_def parse_columns_def clean_Gross_def clean_No_of_Votes_def
  clean_Runtime_def clean_Released_Year_def assign_def astype_float_ignore_def
  to_numeric_coerce_def to_float_def replace_regex_def re_compile_def str_replace_def is_text_def
  dropna_subset_def notna_def add_Decade_def decade_of_def floordiv_def mul_def
  movie.defs movie_d.defs

lemma clean_sample_table: "clean (read_csv sample_table) = Inr [sample_cleaned]"
  by (simp add: sample_table_def sample_cleaned_def read_defs parse_defs clean_defs floor_eq_iff)

lemma clean_total:
  assumes "parse_columns data = Inr parsed"
  shows "\<exists>df. clean data = Inr df"
proof -
  have "\<forall>r\<in>set (dropna_subset parsed). \<not> is_text (Released_Year r)"
    using parse_columns_Inr(2)[OF assms] by (simp add: dropna_subset_def)
  from add_Decade_total[OF this] show ?thesis by (simp add: clean_def assms)
qed

subsection \<open>Row retention\<close>

text \<open>
  Claim C4.  When the preprocessing returns a table, the four column conversions of
  lines 11 to 14 returned one with as many rows as the input, and the result is that
  table filtered by a single test: a row stays exactly when its released year and its
  gross are both not null.  Hence every surviving row has a released year and a gross
  that are not null, and nothing else removes a row.
\<close>

theorem retention_policy:
  assumes "clean data = Inr df"
  shows "\<exists>parsed. parse_columns data = Inr parsed \<and> length parsed = length data
           \<and> map movie.truncate df
               = filter (\<lambda>r. notna (Released_Year r) \<and> notna (Gross r)) parsed
           \<and> (\<forall>r\<in>set parsed. r \<in> set (map movie.truncate df)
                 \<longleftrightarrow> notna (Released_Year r) \<and> notna (Gross r))
           \<and> (\<forall>r\<in>set df. notna (Released_Year r) \<and> notna (Gross r))"
proof -
  obtain parsed where p: "parse_columns data = Inr parsed"
    and a: "add_Decade (dropna_subset parsed) = Inr df"
    using assms by (auto simp: clean_def split: sum.splits)
  have t: "map movie.truncate df
             = filter (\<lambda>r. notna (Released_Year r) \<and> notna (Gross r)) parsed"
    using add_Decade_Inr(1)[OF a] by (simp add: dropna_subset_def)
  have k: "\<forall>r\<in>set df. notna (Released_Year r) \<and> notna (Gross r)"
  proof
    fix r assume "r \<in> set df"
    then have "movie.truncate r \<in> set (map movie.truncate df)" by simp
    then have "notna (Released_Year (movie.truncate r)) \<and> notna (Gross (movie.truncate r))"
      unfolding t by simp
    then show "notna (Released_Year r) \<and> notna (Gross r)" by (simp add: truncate_fields)
  qed
  have m: "\<forall>r\<in>set parsed. r \<in> set (map movie.truncate df)
             \<longleftrightarrow> notna (Released_Year r) \<and> notna (Gross r)"
    unfolding t by simp
  show ?thesis using p parse_columns_Inr(1)[OF p] t m k by blast
qed

theorem retention_policy_witness:
  "clean (read_csv sample_table) = Inr [sample_cleaned]
     \<and> notna (Released_Year sample_cleaned) \<and> notna (Gross sample_cleaned)"
  using retention_policy [OF clean_sample_table] clean_sample_table by auto

subsection \<open>The decade column\<close>

text \<open>
  Claim C3, amended.  For every row of the table the preprocessing returns whose
  released year is a whole number \<open>n\<close> below \<open>2 ^ 53\<close> in magnitude, the decade is the
  whole number \<open>n div 10 * 10\<close>, that is \<open>\<lfloor>n / 10\<rfloor> * 10\<close>, a multiple of ten; and the rows
  that carry a decade are exactly the rows the retention filter kept: the column is
  computed after the filter.
\<close>

theorem decade_bucket:
  assumes "clean data = Inr df" and "r \<in> set df"
    and "Released_Year r = Num (of_int n)" and "\<bar>n\<bar> < 2 ^ 53"
  shows "Decade r = Num (of_int (n div 10 * 10))
           \<and> n div 10 = \<lfloor>(of_int n :: rat) / 10\<rfloor>
           \<and> (n div 10 * 10) mod 10 = 0
           \<and> (\<exists>parsed. parse_columns data = Inr parsed
                 \<and> map movie.truncate df = dropna_subset parsed)"
proof -
  obtain parsed where p: "parse_columns data = Inr parsed"
    and a: "add_Decade (dropna_subset parsed) = Inr df"
    using assms(1) by (auto simp: clean_def split: sum.splits)
  have t: "map movie.truncate df = dropna_subset parsed"
    using add_Decade_Inr(1)[OF a] .
  have d: "decade_of (Released_Year r) = Inr (Decade r)"
    using add_Decade_Inr(2)[OF a] assms(2) by blast
  have f: "\<lfloor>(of_int n :: rat) / 10\<rfloor> = n div 10"
    using floor_divide_of_int_eq[of n 10, where ?'a = rat] by simp
  have "Decade r = Num (of_int (\<lfloor>(of_int n :: rat) / 10\<rfloor> * 10))"
    using d assms(3) by (simp add: decade_of_def floordiv_def mul_def)
  then have "Decade r = Num (of_int (n div 10 * 10))" by (simp only: f)
  then show ?thesis using f p t by auto
qed

theorem decade_bucket_witness:
  "clean (read_csv sample_table) = Inr [sample_cleaned] \<and> sample_cleaned \<in> set [sample_cleaned]
     \<and> Released_Year sample_cleaned = Num (of_int 1999) \<and> \<bar>1999 :: int\<bar> < 2 ^ 53
     \<and> Decade sample_cleaned = Num 1990"
proof -
  have m: "sample_cleaned \<in> set [sample_cleaned]" by simp
  have y: "Released_Year sample_cleaned = Num (of_int 1999)" by (simp add: sample_cleaned_def)
  have b: "\<bar>1999 :: int\<bar> < 2 ^ 53" by simp
  from decade_bucket [OF clean_sample_table m y b]
  have "Decade sample_cleaned = Num (of_int (1999 div 10 * 10))" by blast
  then have "Decade sample_cleaned = Num 1990" by simp
  then show ?thesis using clean_sample_table m y b by blast
qed

text \<open>
  Claim C3 as stated fails: a line whose released year is \<^verbatim>\<open>inf\<close> is read as the
  infinite float, which is not null, so the row survives line 15; its decade is
  \<^verbatim>\<open>NaN\<close>, which is no multiple of ten.
\<close>

theorem decade_counterexample:
  "map_sum id (map Released_Year) (load [inf_row]) = Inr [PosInf]
     \<and> map_sum id (map Decade) (load [inf_row]) = Inr [NaN]"
  by (simp add: load_def inf_row_def read_defs parse_defs clean_defs)

section \<open>Properties of the genre filter\<close>

lemma set_unique: "set (unique xs) = set xs"
  by (induction xs rule: unique.induct) auto

lemma distinct_unique: "distinct (unique xs)"
  by (induction xs rule: unique.induct) (auto simp: set_unique)

lemma count_list_filter_notna:
  "notna g \<Longrightarrow> count_list (filter notna col) g = count_list col g"
  by (induction col) auto

lemma count_list_pos_iff: "0 < count_list xs x \<longleftrightarrow> x \<in> set xs"
  by (induction xs) auto

lemma set_value_counts:
  "set (value_counts rank col) = (\<lambda>g. (g, count_list col g)) ` {g \<in> set col. notna g}"
proof -
  have "set (value_counts rank col)
          = (\<lambda>g. (g, count_list (filter notna col) g)) ` set (filter notna col)"
    by (simp add: value_counts_def Let_def set_unique)
  also have "\<dots> = (\<lambda>g. (g, count_list col g)) ` {g \<in> set col. notna g}"
    by (auto simp: count_list_filter_notna)
  finally show ?thesis .
qed

lemma map_fst_pair: "map fst (map (\<lambda>g. (g, f g)) xs) = xs"
  by (induction xs) simp_all

lemma map_fst_value_counts_distinct: "distinct (map fst (value_counts rank col))"
proof -
  let ?vals = "filter notna col"
  let ?ps = "map (\<lambda>g. (g, count_list ?vals g)) (unique ?vals)"
  have "map fst ?ps = unique ?vals" by (rule map_fst_pair)
  moreover have "mset (value_counts rank col) = mset ?ps"
    by (simp add: value_counts_def Let_def)
  then have "mset (map fst (value_counts rank col)) = mset (map fst ?ps)"
    by (metis mset_map)
  ultimately have "mset (map fst (value_counts rank col)) = mset (unique ?vals)" by simp
  then show ?thesis using distinct_unique by (metis mset_eq_imp_distinct_iff)
qed

lemma sorted_value_counts: "sorted (map (\<lambda>(g, n). - int n) (value_counts rank col))"
  by (simp add: value_counts_def Let_def)

lemma count_list_map: "count_list (map f xs) y = length (filter (\<lambda>x. f x = y) xs)"
  by (induction xs) auto

lemma selected_genres_iff:
  "g \<in> set (selected_genres L data) \<longleftrightarrow> notna g \<and> 10 < row_count data g"
proof -
  have "g \<in> set (selected_genres L data)
          \<longleftrightarrow> (\<exists>n. (g, n) \<in> set (value_counts (tie_rank L (map Genre data)) (map Genre data)) \<and> 10 < n)"
    by (force simp: selected_genres_def genre_counts_def)
  also have "\<dots> \<longleftrightarrow> g \<in> set (map Genre data) \<and> notna g \<and> 10 < count_list (map Genre data) g"
    unfolding set_value_counts by auto
  also have "\<dots> \<longleftrightarrow> notna g \<and> 10 < count_list (map Genre data) g"
    using count_list_pos_iff[of "map Genre data" g] by auto
  finally show ?thesis by (simp add: row_count_def count_list_map)
qed

lemma genre_counts_snd:
  "(g, n) \<in> set (genre_counts L data) \<Longrightarrow> n = row_count data g"
  unfolding genre_counts_def set_value_counts by (auto simp: row_count_def count_list_map)

lemma selected_genres_sorted:
  "sorted_wrt (\<lambda>a b. row_count data b \<le> row_count data a) (selected_genres L data)"
proof -
  let ?ps = "filter (\<lambda>(g, n). 10 < n) (genre_counts L data)"
  have s: "sorted (map (\<lambda>(g, n). - int n) ?ps)"
    using sorted_value_counts[of "tie_rank L (map Genre data)" "map Genre data"]
    by (simp add: genre_counts_def sorted_filter)
  have e: "\<forall>p\<in>set ?ps. snd p = row_count data (fst p)"
    using genre_counts_snd by auto
  have k: "sorted_wrt (\<lambda>p q. - int (snd p) \<le> - int (snd q)) ?ps"
    using s by (simp add: sorted_map case_prod_unfold)
  have "sorted_wrt (\<lambda>p q. row_count data (fst q) \<le> row_count data (fst p)) ?ps"
  proof (rule sorted_wrt_mono_rel[OF _ k])
    fix p q assume p: "p \<in> set ?ps" and q: "q \<in> set ?ps"
      and le: "- int (snd p) \<le> - int (snd q)"
    have "snd p = row_count data (fst p)" using e p by blast
    moreover have "snd q = row_count data (fst q)" using e q by blast
    ultimately show "row_count data (fst q) \<le> row_count data (fst p)" using le by simp
  qed
  then show ?thesis by (simp add: selected_genres_def sorted_wrt_map)
qed

lemma selected_genres_notna: "g \<in> set (selected_genres L data) \<Longrightarrow> notna g"
  by (simp add: selected_genres_iff)

lemma distinct_selected_genres: "distinct (selected_genres L data)"
  unfolding selected_genres_def genre_counts_def
  by (rule distinct_map_filter) (rule map_fst_value_counts_distinct)

lemma data_filtered_eq:
  "data_filtered L data = filter (\<lambda>r. Genre r \<in> set (selected_genres L data)) data"
  by (simp add: data_filtered_def isin_def)

lemma two_element_list:
  assumes "distinct xs" and "set xs = {a, b}" and "a \<noteq> b"
  shows "xs = [a, b] \<or> xs = [b, a]"
proof -
  have "length xs = 2" using assms by (metis distinct_card card_2_iff)
  then obtain x y where xs: "xs = [x, y]"
    by (metis (no_types, opaque_lifting) One_nat_def Suc_1 length_0_conv length_Suc_conv)
  then show ?thesis using assms by (auto simp: doubleton_eq_iff)
qed

text \<open>
  Claim C2.  A value is in the list of selected genres exactly when it is not null and
  more than ten rows of the table have it as their genre; the list is ordered by falling
  row count; the filtered table is the rows of the table whose genre is in the list.
  A table with 50 rows of Drama, 15 of Action and 3 of Shortfilm, and no other genre,
  gives the list Drama, Action.
\<close>

theorem genre_filter:
  "(g \<in> set (selected_genres L data) \<longleftrightarrow> notna g \<and> 10 < row_count data g)
   \<and> sorted_wrt (\<lambda>a b. row_count data b \<le> row_count data a) (selected_genres L data)
   \<and> data_filtered L data = filter (\<lambda>r. Genre r \<in> set (selected_genres L data)) data
   \<and> (row_count data (Str ''Drama'') = 50 \<and> row_count data (Str ''Action'') = 15
        \<and> row_count data (Str ''Shortfilm'') = 3
        \<and> set (map Genre data) \<subseteq> {Str ''Drama'', Str ''Action'', Str ''Shortfilm''}
      \<longrightarrow> selected_genres L data = [Str ''Drama'', Str ''Action''])"
proof (intro conjI impI)
  show "g \<in> set (selected_genres L data) \<longleftrightarrow> notna g \<and> 10 < row_count data g"
    by (rule selected_genres_iff)
  show "sorted_wrt (\<lambda>a b. row_count data b \<le> row_count data a) (selected_genres L data)"
    by (rule selected_genres_sorted)
  show "data_filtered L data = filter (\<lambda>r. Genre r \<in> set (selected_genres L data)) data"
    by (rule data_filtered_eq)
next
  assume h: "row_count data (Str ''Drama'') = 50 \<and> row_count data (Str ''Action'') = 15
        \<and> row_count data (Str ''Shortfilm'') = 3
        \<and> set (map Genre data) \<subseteq> {Str ''Drama'', Str ''Action'', Str ''Shortfilm''}"
  have other: "row_count data g = 0" if "g \<notin> {Str ''Drama'', Str ''Action'', Str ''Shortfilm''}" for g
  proof -
    have "\<forall>r\<in>set data. Genre r \<noteq> g" using h that by auto
    then show ?thesis by (simp add: row_count_def)
  qed
  have "set (selected_genres L data) = {Str ''Drama'', Str ''Action''}"
  proof (rule set_eqI)
    fix g show "g \<in> set (selected_genres L data) \<longleftrightarrow> g \<in> {Str ''Drama'', Str ''Action''}"
    proof (cases "g \<in> {Str ''Drama'', Str ''Action'', Str ''Shortfilm''}")
      case True
      then consider "g = Str ''Drama''" | "g = Str ''Action''" | "g = Str ''Shortfilm''" by blast
      then show ?thesis
        by cases (simp_all add: selected_genres_iff h notna_def)
    next
      case False
      then show ?thesis using other[of g] by (simp add: selected_genres_iff)
    qed
  qed
  from two_element_list[OF distinct_selected_genres this]
  have "selected_genres L data = [Str ''Drama'', Str ''Action'']
          \<or> selected_genres L data = [Str ''Action'', Str ''Drama'']" by simp
  moreover have "selected_genres L data \<noteq> [Str ''Action'', Str ''Drama'']"
  proof
    assume "selected_genres L data = [Str ''Action'', Str ''Drama'']"
    then have "row_count data (Str ''Drama'') \<le> row_count data (Str ''Action'')"
      using selected_genres_sorted[of data L] by simp
    then show False using h by simp
  qed
  ultimately show "selected_genres L data = [Str ''Drama'', Str ''Action'']" by blast
qed

lemma row_count_sample_genres:
  "row_count sample_genres (Str ''Drama'') = 50"
  "row_count sample_genres (Str ''Action'') = 15"
  "row_count sample_genres (Str ''Shortfilm'') = 3"
  "set (map Genre sample_genres) \<subseteq> {Str ''Drama'', Str ''Action'', Str ''Shortfilm''}"
  by (simp_all add: row_count_def sample_genres_def genre_row_def)

theorem genre_filter_witness:
  "row_count sample_genres (Str ''Drama'') = 50 \<and> row_count sample_genres (Str ''Action'') = 15
     \<and> row_count sample_genres (Str ''Shortfilm'') = 3
     \<and> selected_genres sample_library sample_genres = [Str ''Drama'', Str ''Action'']
     \<and> length (data_filtered sample_library sample_genres) = 65"
proof -
  have s: "selected_genres sample_library sample_genres = [Str ''Drama'', Str ''Action'']"
    using genre_filter [of "Str ''Drama''" sample_library sample_genres] row_count_sample_genres by blast
  have "data_filtered sample_library sample_genres
          = filter (\<lambda>r. Genre r \<in> set (selected_genres sample_library sample_genres)) sample_genres"
    using genre_filter [of "Str ''Drama''" sample_library sample_genres] by blast
  then have "length (data_filtered sample_library sample_genres) = 65"
    unfolding s by (simp add: sample_genres_def genre_row_def)
  then show ?thesis using s row_count_sample_genres by simp
qed

section \<open>Properties of the chart builder and the dashboard\<close>

subsection \<open>What the builder does with each kind of value\<close>

lemma select_rows_map: "select_rows (map P rows) rows = filter P rows"
  by (induction rows) (simp_all add: select_rows_def)

text \<open>The chart for a value that is neither a list nor an object, over the rows \<open>rows\<close>
  and with the colour \<open>c\<close>.\<close>

lemma create_facet_chart_scalar:
  assumes "\<not> is_list v" and "dict_get (g_genre_colors s) v ''#337BFF'' = Inr c"
  shows "create_facet_chart L v s
     = Inr \<lparr>bar_x = map Decade (filter (\<lambda>r. eq_scalar (Genre r) v) (g_data_filtered s)),
            bar_y = map IMDB_Rating (filter (\<lambda>r. eq_scalar (Genre r) v) (g_data_filtered s)),
            hover_data =
              [map Series_Title (filter (\<lambda>r. eq_scalar (Genre r) v) (g_data_filtered s))],
            title = ''IMDB Rating by Decade for '' @ py_str L v,
            labels = [(''Decade'', ''Decade''), (''IMDB_Rating'', ''Average IMDB Rating'')],
            marker_color = Some c,
            layout =
              Some \<lparr>title_font_size = 18, title_x = 4 / 10,
                    paper_bgcolor = ''rgba(0,0,0,0)'', plot_bgcolor = ''rgba(0,0,0,0)'',
                    font_color = ''white'',
                    margin_t = 40, margin_b = 30, margin_l = 30, margin_r = 30,
                    height = 400\<rparr>\<rparr>"
proof -
  have "series_eq (map Genre (g_data_filtered s)) v
          = Inr (map (\<lambda>c. eq_scalar c v) (map Genre (g_data_filtered s)))"
    using assms(1) by (cases v) (simp_all add: series_eq_def is_list_def)
  then show ?thesis
    using assms(2)
    by (simp add: create_facet_chart_def select_rows_map comp_def px_bar_def update_traces_def
        update_layout_def)
qed



subsection \<open>The colour of the bars\<close>

text \<open>
  Claim C6.  With the globals the script builds, the marker colour of the chart for a
  text is the entry of the colour table for that text, or \<^verbatim>\<open>#337BFF\<close> when the table has
  none; for a cleared selector, a number or a truth value it is \<^verbatim>\<open>#337BFF\<close>.  Horror gives
  \<^verbatim>\<open>#8E44AD\<close>; a genre the table lacks, such as Western, gives the fallback, which is the
  colour of Drama.
\<close>

theorem bar_colour:
  "map_sum id marker_color (create_facet_chart L (JText k) (make_globals L data))
     = Inr (Some (case map_of genre_colors k of None \<Rightarrow> ''#337BFF'' | Some c \<Rightarrow> c))
   \<and> map_sum id marker_color (create_facet_chart L JNull (make_globals L data))
       = Inr (Some ''#337BFF'')
   \<and> map_sum id marker_color (create_facet_chart L (JInt n) (make_globals L data))
       = Inr (Some ''#337BFF'')
   \<and> map_sum id marker_color (create_facet_chart L (JFloat x) (make_globals L data))
       = Inr (Some ''#337BFF'')
   \<and> map_sum id marker_color (create_facet_chart L (JBool b) (make_globals L data))
       = Inr (Some ''#337BFF'')
   \<and> map_sum id marker_color (create_facet_chart L (JText ''Horror'') (make_globals L data))
       = Inr (Some ''#8E44AD'')
   \<and> map_sum id marker_color (create_facet_chart L (JText ''Western'') (make_globals L data))
       = Inr (Some ''#337BFF'')
   \<and> map_of genre_colors ''Drama'' = Some ''#337BFF''"
proof -
  have t: "map_sum id marker_color (create_facet_chart L (JText k) (make_globals L data))
     = Inr (Some (case map_of genre_colors k of None \<Rightarrow> ''#337BFF'' | Some c \<Rightarrow> c))" for k
    using create_facet_chart_scalar[of "JText k" "make_globals L data" _ L]
    by (simp add: is_list_def dict_get_def make_globals_def)
  have o: "map_sum id marker_color (create_facet_chart L v (make_globals L data))
       = Inr (Some ''#337BFF'')"
    if "v = JNull \<or> (\<exists>n. v = JInt n) \<or> (\<exists>x. v = JFloat x) \<or> (\<exists>b. v = JBool b)" for v
    using that create_facet_chart_scalar[of v "make_globals L data" "''#337BFF''" L]
    by (auto simp: is_list_def dict_get_def)
  have h: "map_of genre_colors ''Horror'' = Some ''#8E44AD''"
    and w: "map_of genre_colors ''Western'' = None"
    and d: "map_of genre_colors ''Drama'' = Some ''#337BFF''"
    by (simp_all add: genre_colors_def)
  show ?thesis
    using t[of k] t[of "''Horror''"] t[of "''Western''"] o[of JNull] o[of "JInt n"]
      o[of "JFloat x"] o[of "JBool b"] h w d
    by simp
qed

subsection \<open>Values the builder answers and values it raises on\<close>


subsection \<open>A start of the script on eleven dramas\<close>

lemma load_sample_dramas: "load sample_dramas = Inr (replicate 11 drama_cleaned)"
  by (simp add: load_def sample_dramas_def drama_cleaned_def eval_nat_numeral read_defs
      parse_defs clean_defs floor_eq_iff)

lemma selected_sample_dramas:
  "selected_genres sample_library (replicate 11 drama_cleaned) = [Str ''Drama'']"
  by (simp add: selected_genres_def genre_counts_def value_counts_def drama_cleaned_def
      notna_def eval_nat_numeral sample_library_def)


lemma startup_sample_dramas:
  "\<exists>app. startup sample_library sample_dramas
           = Inr (make_globals sample_library (replicate 11 drama_cleaned), app)"
proof -
  have "px_treemap sample_library d = Inr ''treemap''"
    and "px_scatter sample_library d = Inr ''scatter''"
    and "px_parallel_coordinates sample_library d = Inr ''parallel_coordinates''" for d
    by (simp_all add: sample_library_def)
  then show ?thesis
    by (simp add: startup_def load_sample_dramas selected_sample_dramas make_layout_def
        first_def)
qed



subsection \<open>An empty list of genres\<close>

lemma selected_genres_single: "selected_genres L [r] = []"
proof -
  have "g \<notin> set (selected_genres L [r])" for g
    by (simp add: selected_genres_iff row_count_def)
  then show ?thesis by (metis list.set_intros(1) neq_Nil_conv)
qed

text \<open>
  Claim C10.  Building the page from an empty list of genres raises \<^verbatim>\<open>IndexError\<close> at
  \<^verbatim>\<open>selected_genres[0]\<close>.  So when the dataset loads and no genre has more than ten
  rows, the script ends in an error and never serves; when the three static charts of
  lines 43 to 131 come out, the error is that \<^verbatim>\<open>IndexError\<close>.
\<close>

theorem empty_genres_fail:
  assumes "load rows = Inr data" and "selected_genres L data = []"
  shows "(\<exists>e. startup L rows = Inl e)
         \<and> make_layout (selected_genres L data) t sc pc = Inl IndexError
         \<and> (px_treemap L data = Inr t \<and> px_scatter L data = Inr sc
              \<and> px_parallel_coordinates L data = Inr pc
            \<longrightarrow> startup L rows = Inl IndexError)"
proof (intro conjI impI)
  show m: "make_layout (selected_genres L data) t sc pc = Inl IndexError"
    by (simp add: assms(2) make_layout_def first_def)
  show "\<exists>e. startup L rows = Inl e"
    by (simp add: startup_def assms make_layout_def first_def split: sum.splits)
  assume "px_treemap L data = Inr t \<and> px_scatter L data = Inr sc
              \<and> px_parallel_coordinates L data = Inr pc"
  then show "startup L rows = Inl IndexError"
    by (simp add: startup_def assms make_layout_def first_def)
qed

lemma load_sample_table: "load sample_table = Inr [sample_cleaned]"
  by (simp add: load_def clean_sample_table)

theorem empty_genres_fail_witness:
  "load sample_table = Inr [sample_cleaned]
   \<and> selected_genres sample_library [sample_cleaned] = []
   \<and> px_treemap sample_library [sample_cleaned] = Inr ''treemap''
   \<and> px_scatter sample_library [sample_cleaned] = Inr ''scatter''
   \<and> px_parallel_coordinates sample_library [sample_cleaned] = Inr ''parallel_coordinates''
   \<and> startup sample_library sample_table = Inl IndexError"
proof -
  have p: "px_treemap sample_library [sample_cleaned] = Inr ''treemap''
     \<and> px_scatter sample_library [sample_cleaned] = Inr ''scatter''
     \<and> px_parallel_coordinates sample_library [sample_cleaned] = Inr ''parallel_coordinates''"
    by (simp add: sample_library_def)
  from empty_genres_fail [OF load_sample_table selected_genres_single,
      of sample_library "''treemap''" "''scatter''" "''parallel_coordinates''"] p
  have "startup sample_library sample_table = Inl IndexError" by blast
  then show ?thesis using load_sample_table selected_genres_single p by blast
qed

subsection \<open>The selector and its binding\<close>

text \<open>
  Claim C8.  When the script reaches the point of serving, the page has one selector,
  \<^verbatim>\<open>genre-dropdown\<close>; its options are the selected genres, each as label and value, in
  their order; its value is the first of them.  The application has one callback, from
  the value of the selector to the figure of \<^verbatim>\<open>facet-chart\<close>, and it is the chart builder.
\<close>

theorem selector_binding:
  assumes "startup L rows = Inr (s, app)"
  shows "\<exists>data page v rest. load rows = Inr data \<and> selected_genres L data = v # rest
     \<and> app_layout app = Some page
     \<and> dropdowns page
         = [Dropdown ''genre-dropdown'' (map (\<lambda>g. (g, g)) (selected_genres L data)) v]
     \<and> callbacks app
         = [\<lparr>outputs = [(''facet-chart'', ''figure'')],
             inputs = [(''genre-dropdown'', ''value'')],
             handler = update_facet_chart L\<rparr>]
     \<and> update_facet_chart L = create_facet_chart L"
proof -
  obtain data where l: "load rows = Inr data"
    using assms by (auto simp: startup_def split: sum.splits)
  obtain t sc pc where f: "px_treemap L data = Inr t" "px_scatter L data = Inr sc"
      "px_parallel_coordinates L data = Inr pc"
    using assms l by (auto simp: startup_def split: sum.splits)
  obtain page where m: "make_layout (selected_genres L data) t sc pc = Inr page"
    using assms l f by (auto simp: startup_def split: sum.splits)
  then obtain v rest where g: "selected_genres L data = v # rest"
    by (cases "selected_genres L data") (auto simp: make_layout_def first_def)
  have d: "dropdowns page
         = [Dropdown ''genre-dropdown'' (map (\<lambda>g. (g, g)) (selected_genres L data)) v]"
    using m g by (auto simp: make_layout_def first_def)
  have a: "app = app_callback (''facet-chart'', ''figure'') (''genre-dropdown'', ''value'')
                   (update_facet_chart L) (Dash\<lparr>app_layout := Some page\<rparr>)"
    using assms l f m by (simp add: startup_def)
  have u: "update_facet_chart L = create_facet_chart L"
    by (rule ext) (simp add: update_facet_chart_def)
  show ?thesis using l g d u by (simp add: a app_callback_def Dash_def)
qed

theorem selector_binding_witness:
  "\<exists>s app page. startup sample_library sample_dramas = Inr (s, app)
     \<and> app_layout app = Some page
     \<and> dropdowns page
         = [Dropdown ''genre-dropdown'' [(Str ''Drama'', Str ''Drama'')] (Str ''Drama'')]
     \<and> map outputs (callbacks app) = [[(''facet-chart'', ''figure'')]]
     \<and> map inputs (callbacks app) = [[(''genre-dropdown'', ''value'')]]"
proof -
  obtain s app where st: "startup sample_library sample_dramas = Inr (s, app)"
    using startup_sample_dramas by blast
  from selector_binding [OF st] obtain data page v rest where
    l: "load sample_dramas = Inr data" and g: "selected_genres sample_library data = v # rest"
    and p: "app_layout app = Some page"
    and d: "dropdowns page
         = [Dropdown ''genre-dropdown''
              (map (\<lambda>g. (g, g)) (selected_genres sample_library data)) v]"
    and c: "callbacks app
         = [\<lparr>outputs = [(''facet-chart'', ''figure'')],
             inputs = [(''genre-dropdown'', ''value'')],
             handler = update_facet_chart sample_library\<rparr>]"
    by blast
  have "data = replicate 11 drama_cleaned" using l by (simp add: load_sample_dramas)
  then have "selected_genres sample_library data = [Str ''Drama'']"
    by (simp add: selected_sample_dramas)
  then have "dropdowns page
         = [Dropdown ''genre-dropdown'' [(Str ''Drama'', Str ''Drama'')] (Str ''Drama'')]"
    using d g by simp
  then show ?thesis using st p c by simp
qed

section \<open>Properties of the text columns\<close>

subsection \<open>The runtime column\<close>

lemma those_map:
  "those (map f xs)
     = (if list_all (\<lambda>x. f x \<noteq> None) xs then Some (map (\<lambda>x. the (f x)) xs) else None)"
  by (induction xs) (auto split: option.splits)

lemma astype_float_ignore_cases:
  "astype_float_ignore col
     = (if list_all (\<lambda>c. to_float c \<noteq> None) col then map (\<lambda>c. the (to_float c)) col else col)"
  using those_map[of to_float col] by (simp add: astype_float_ignore_def)

lemma Runtime_clean_Gross: "map Runtime (clean_Gross data) = map Runtime data"
  unfolding clean_Gross_def
  by (rule map_assign_other) (simp_all add: length_astype_float_ignore length_replace_regex)

lemma Runtime_clean_No_of_Votes: "map Runtime (clean_No_of_Votes data) = map Runtime data"
  unfolding clean_No_of_Votes_def
  by (rule map_assign_other) (simp_all add: length_to_numeric_coerce)

lemma Runtime_clean_Released_Year: "map Runtime (clean_Released_Year data) = map Runtime data"
  unfolding clean_Released_Year_def
  by (rule map_assign_other) (simp_all add: length_to_numeric_coerce)

lemma Runtime_clean_Runtime:
  assumes "clean_Runtime data = Inr data'"
  shows "map Runtime data'
     = astype_float_ignore
         (map (\<lambda>c. case c of Str s \<Rightarrow> Str (replace_all '' min'' [] s) | _ \<Rightarrow> NaN)
            (map Runtime data))"
proof -
  obtain col where c: "str_replace '' min'' '''' (map Runtime data) = Inr col"
    and d: "data' = assign (\<lambda>v r. r\<lparr>Runtime := v\<rparr>) (astype_float_ignore col) data"
    using assms by (auto simp: clean_Runtime_def split: sum.splits)
  have col: "col = map (\<lambda>c. case c of Str s \<Rightarrow> Str (replace_all '' min'' [] s) | _ \<Rightarrow> NaN)
                     (map Runtime data)"
    using str_replace_Inr[OF c] .
  have "length (astype_float_ignore col) = length data"
    by (simp add: col length_astype_float_ignore)
  then have "map Runtime data' = astype_float_ignore col"
    unfolding d by (rule map_assign_same) simp
  then show ?thesis by (simp only: col)
qed

lemma Runtime_parse_columns:
  assumes "parse_columns data = Inr parsed"
  shows "map Runtime parsed
     = astype_float_ignore
         (map (\<lambda>c. case c of Str s \<Rightarrow> Str (replace_all '' min'' [] s) | _ \<Rightarrow> NaN)
            (map Runtime data))"
proof -
  obtain d where d: "clean_Runtime (clean_No_of_Votes (clean_Gross data)) = Inr d"
    and p: "parsed = clean_Released_Year d"
    using assms by (auto simp: parse_columns_def split: sum.splits)
  show ?thesis
    by (simp only: p Runtime_clean_Released_Year Runtime_clean_Runtime[OF d]
        Runtime_clean_No_of_Votes Runtime_clean_Gross)
qed

lemma parse_columns_total:
  assumes "i < length data" and "Runtime (data ! i) = Str s"
  shows "\<exists>parsed. parse_columns data = Inr parsed"
proof -
  have "map Runtime data ! i = Str s" using assms by simp
  then have "Str s \<in> set (map Runtime data)"
    using assms(1) by (metis length_map nth_mem)
  then have "list_ex is_text (map Runtime data)"
    unfolding list_ex_iff by (rule bexI[rotated]) (simp add: is_text_def)
  then have "list_ex is_text (map Runtime (clean_No_of_Votes (clean_Gross data)))"
    by (simp only: Runtime_clean_No_of_Votes Runtime_clean_Gross)
  then show ?thesis by (simp add: parse_columns_def clean_Runtime_def str_replace_def)
qed

lemma replace_all_min_suffix:
  "CHR '' '' \<notin> set t \<Longrightarrow> replace_all '' min'' '''' (t @ '' min'') = t"
  by (induction t) auto

lemma py_float_142: "py_float ''142'' = Some (Num 142)"
  by (simp add: parse_defs)

text \<open>
  Claim C7, amended.  In a table where some row has a text as its runtime, lines 11 to
  18 raise no error and lines 11 to 14 keep every row.  Line 13 removes every \<^verbatim>\<open> min\<close>
  from the texts of the column, a trailing one included.  When every text of the column
  then reads as a float, the runtime of the row becomes the float its text reads as, 142
  for \<^verbatim>\<open>142 min\<close>; when some text of the column does not, the runtime of the row is left
  as its text without \<^verbatim>\<open> min\<close>.  Either way the line leaves the released year and the gross
  as lines 14 and 11 alone make them, and the rows that survive line 15 are the rows whose
  released year and gross are not null: no row is dropped for its runtime.
\<close>

theorem runtime_cleaning:
  assumes "i < length data" and "Runtime (data ! i) = Str s"
  shows "\<exists>parsed df. parse_columns data = Inr parsed \<and> clean data = Inr df
    \<and> length parsed = length data
    \<and> (if list_all (\<lambda>r. case Runtime r of
                             Str u \<Rightarrow> py_float (replace_all '' min'' '''' u) \<noteq> None
                           | _ \<Rightarrow> True) data
        then \<exists>x. py_float (replace_all '' min'' '''' s) = Some x \<and> Runtime (parsed ! i) = x
        else Runtime (parsed ! i) = Str (replace_all '' min'' '''' s))
    \<and> map Released_Year parsed = to_numeric_coerce (map Released_Year data)
    \<and> map Gross parsed
         = astype_float_ignore
             (replace_regex ''$'' '''' (replace_regex '','' '''' (map Gross data)))
    \<and> map movie.truncate df
         = filter (\<lambda>r. notna (Released_Year r) \<and> notna (Gross r)) parsed
    \<and> (CHR '' '' \<notin> set t \<longrightarrow> replace_all '' min'' '''' (t @ '' min'') = t)
    \<and> py_float ''142'' = Some (Num 142)"
proof -
  obtain parsed where p: "parse_columns data = Inr parsed"
    using parse_columns_total[OF assms] by blast
  obtain df where c: "clean data = Inr df" using clean_total[OF p] by blast
  have a: "add_Decade (dropna_subset parsed) = Inr df" using c by (simp add: clean_def p)
  have t: "map movie.truncate df
             = filter (\<lambda>r. notna (Released_Year r) \<and> notna (Gross r)) parsed"
    using add_Decade_Inr(1)[OF a] by (simp add: dropna_subset_def)
  have len: "length parsed = length data" using parse_columns_Inr(1)[OF p] .
  define col where
    "col = map (\<lambda>c. case c of Str s \<Rightarrow> Str (replace_all '' min'' [] s) | _ \<Rightarrow> NaN)
             (map Runtime data)"
  have lc: "length col = length data" by (simp add: col_def)
  have ci: "col ! i = Str (replace_all '' min'' [] s)"
    using assms by (simp add: col_def)
  have r: "Runtime (parsed ! i) = astype_float_ignore col ! i"
    using Runtime_parse_columns[OF p] assms(1) len unfolding col_def by (metis nth_map)
  have q: "list_all (\<lambda>r. case Runtime r of
                             Str u \<Rightarrow> py_float (replace_all '' min'' [] u) \<noteq> None
                           | _ \<Rightarrow> True) data
             \<longleftrightarrow> list_all (\<lambda>c. to_float c \<noteq> None) col"
    by (auto simp: col_def list_all_iff to_float_def split: cell.splits)
  have b: "if list_all (\<lambda>r. case Runtime r of
                             Str u \<Rightarrow> py_float (replace_all '' min'' [] u) \<noteq> None
                           | _ \<Rightarrow> True) data
        then \<exists>x. py_float (replace_all '' min'' [] s) = Some x \<and> Runtime (parsed ! i) = x
        else Runtime (parsed ! i) = Str (replace_all '' min'' [] s)"
  proof (cases "list_all (\<lambda>c. to_float c \<noteq> None) col")
    case True
    then have "to_float (col ! i) \<noteq> None"
      using assms(1) lc by (simp add: list_all_length)
    then obtain x where x: "py_float (replace_all '' min'' [] s) = Some x"
      by (auto simp: ci to_float_def)
    have "Runtime (parsed ! i) = the (to_float (col ! i))"
      using r True assms(1) lc by (simp add: astype_float_ignore_cases)
    then have "Runtime (parsed ! i) = x" by (simp add: ci to_float_def x)
    then show ?thesis using True x by (simp only: q if_True) blast
  next
    case False
    then have "Runtime (parsed ! i) = col ! i" using r by (simp add: astype_float_ignore_cases)
    then show ?thesis using False by (simp only: q if_False ci)
  qed
  show ?thesis
    using p c len b parse_columns_year_gross[OF p] t replace_all_min_suffix[of t] py_float_142
    by (intro exI[of _ parsed] exI[of _ df]) simp
qed

lemma parse_columns_sample_read: "parse_columns [sample_read] = Inr [sample_parsed]"
  by (simp add: sample_read_def sample_parsed_def parse_defs clean_defs)

theorem runtime_cleaning_witness:
  "(0::nat) < length [sample_read] \<and> Runtime ([sample_read] ! 0) = Str ''142 min''
     \<and> CHR '' '' \<notin> set ''142''
     \<and> parse_columns [sample_read] = Inr [sample_parsed]
     \<and> Runtime ([sample_parsed] ! 0) = Num 142
     \<and> replace_all '' min'' '''' (''142'' @ '' min'') = ''142''"
proof -
  have h1: "(0::nat) < length [sample_read]" by simp
  have h2: "Runtime ([sample_read] ! 0) = Str ''142 min''" by (simp add: sample_read_def)
  have h3: "CHR '' '' \<notin> set ''142''" by simp
  have cv: "list_all (\<lambda>r. case Runtime r of
                             Str u \<Rightarrow> py_float (replace_all '' min'' '''' u) \<noteq> None
                           | _ \<Rightarrow> True) [sample_read]"
    by (simp add: sample_read_def py_float_142)
  from runtime_cleaning [OF h1 h2, of "''142''"]
  obtain parsed x where p: "parse_columns [sample_read] = Inr parsed"
    and x: "py_float (replace_all '' min'' '''' ''142 min'') = Some x"
    and r: "Runtime (parsed ! 0) = x"
    and s: "CHR '' '' \<notin> set ''142''
              \<longrightarrow> replace_all '' min'' '''' (''142'' @ '' min'') = ''142''"
    unfolding if_P[OF cv] by blast
  have "parsed = [sample_parsed]" using p by (simp add: parse_columns_sample_read)
  moreover have "x = Num 142" using x by (simp add: py_float_142)
  ultimately have "Runtime ([sample_parsed] ! 0) = Num 142" using r by simp
  then show ?thesis using h1 h2 h3 s parse_columns_sample_read by blast
qed

text \<open>
  Claim C7 as stated fails: in a table of two lines, of which the second has the runtime
  \<^verbatim>\<open>abc\<close>, the runtime \<^verbatim>\<open>142 min\<close> of the first is left as the text \<^verbatim>\<open>142\<close>.
  Both rows are kept.
\<close>

theorem runtime_counterexample:
  "map_sum id (map Runtime) (load sample_runtimes) = Inr [Str ''142'', Str ''abc'']
     \<and> Str ''142'' \<noteq> Num 142"
  by (simp add: load_def sample_runtimes_def read_defs parse_defs clean_defs floor_eq_iff)

subsection \<open>The gross column\<close>

lemma re_sub_Eol_empty: "re_sub Eol [] s = s"
proof (cases "s \<noteq> [] \<and> last s = CHR 0x0A")
  case True
  then have "butlast s @ [CHR 0x0A] = s" by (metis append_butlast_last_id)
  then show ?thesis using True by simp
next
  case False
  then show ?thesis by auto
qed

text \<open>
  Claim C1.  The second replacement of line 11 changes nothing, since \<^verbatim>\<open>$\<close> is the end
  anchor: a gross of \<^verbatim>\<open>$1,234,567\<close> is left as the text \<^verbatim>\<open>$1234567\<close> and is not the number
  1234567.  Without the dollar sign the same field becomes 1234567, and a line whose
  gross is \<^verbatim>\<open>N/A\<close> is dropped; a line whose gross is the text \<^verbatim>\<open>abc\<close> is kept, and
  with it in the table no gross becomes a number.
\<close>

theorem gross_dollar_sign_kept:
  "replace_regex ''$'' '''' col = col
     \<and> map_sum id (map Gross) (load [dollar_row]) = Inr [Str ''$1234567'']
     \<and> Str ''$1234567'' \<noteq> Num 1234567
     \<and> map_sum id (map Gross) (load [comma_row]) = Inr [Num 1234567]
     \<and> map_sum id (map Gross) (load [comma_row, na_row]) = Inr [Num 1234567]
     \<and> map_sum id (map Gross) (load [comma_row, text_row])
         = Inr [Str ''1234567'', Str ''abc'']"
proof (intro conjI)
  have "map (\<lambda>c. case c of Str s \<Rightarrow> Str (re_sub Eol [] s) | _ \<Rightarrow> c) col = col"
    by (induction col) (simp_all add: re_sub_Eol_empty del: re_sub.simps split: cell.splits)
  then show "replace_regex ''$'' '''' col = col"
    by (simp add: replace_regex_def re_compile_def)
  show "map_sum id (map Gross) (load [dollar_row]) = Inr [Str ''$1234567'']"
    by (simp add: load_def dollar_row_def read_defs parse_defs clean_defs floor_eq_iff)
  show "Str ''$1234567'' \<noteq> Num 1234567" by simp
  show "map_sum id (map Gross) (load [comma_row]) = Inr [Num 1234567]"
    by (simp add: load_def comma_row_def read_defs parse_defs clean_defs floor_eq_iff)
  show "map_sum id (map Gross) (load [comma_row, na_row]) = Inr [Num 1234567]"
    by (simp add: load_def comma_row_def na_row_def read_defs parse_defs clean_defs floor_eq_iff)
  show "map_sum id (map Gross) (load [comma_row, text_row])
         = Inr [Str ''1234567'', Str ''abc'']"
    by (simp add: load_def comma_row_def text_row_def read_defs parse_defs clean_defs
        floor_eq_iff)
qed

end
